theory Spec2Isabelle
  imports Complex_Main
begin

section \<open>The longitudinal vehicle model of Longitudinal\_Vehicle\_Model.ipynb\<close>

text \<open>
  The notebook defines a class \<open>Vehicle\<close> (constructor and \<open>reset\<close> in the first
  code cell, \<open>step\<close> in the second) and, in a later cell, the incline profile
  \<open>alpha\<close>. Python numbers are modelled as real numbers: rounding and non-finite
  values are outside the model. Python's \<open>/\<close> raises \<open>ZeroDivisionError\<close> on a
  zero divisor; that is an explicit outcome of the model. (Where an operand is a NumPy
  scalar, as the results of \<open>np.sin\<close> are, the same division gives a non-finite value
  and a warning instead. No real number stands for that value, so the model has the
  one outcome for every division by zero. In \<open>step\<close> the dividends of the divisions
  by \<open>J_e\<close> and by \<open>m\<close> contain the load force and so are NumPy scalars; the
  operands of the division by the velocity are plain numbers when the state holds
  plain numbers, as it does after the constructor, after \<open>reset\<close> and after an
  assignment by the caller. The theorems below that describe the result of a division
  assume its divisor is not zero.)
\<close>

subsection \<open>The object\<close>

text \<open>
  The attributes of a \<open>Vehicle\<close> object, under the names of the source. The
  constructor creates the first eighteen; \<open>Te\<close>, \<open>Fload\<close>, \<open>w_w\<close>, \<open>s\<close> and
  \<open>Fx\<close> are created by the first call of \<open>step\<close>, so they are optional: \<open>None\<close>
  is an attribute that does not exist yet.
\<close>

record vehicle =
  a_0 :: real
  a_1 :: real
  a_2 :: real
  GR :: real
  r_e :: real
  J_e :: real
  m :: real
  g :: real
  c_a :: real
  c_r1 :: real
  c :: real
  F_max :: real
  x :: real
  v :: real
  a :: real
  w_e :: real
  w_e_dot :: real
  sample_time :: real
  Te :: "real option"
  Fload :: "real option"
  w_w :: "real option"
  s :: "real option"
  Fx :: "real option"

datatype error = ZeroDivisionError | NameError

text \<open>\<open>Vehicle()\<close>: the constructor takes no argument.\<close>

definition Vehicle_init :: vehicle where
  "Vehicle_init =
     \<lparr> a_0 = 400, a_1 = 0.1, a_2 = - 0.0002,
       GR = 0.35, r_e = 0.3, J_e = 10, m = 2000, g = 9.81,
       c_a = 1.36, c_r1 = 0.01,
       c = 10000, F_max = 10000,
       x = 0, v = 5, a = 0, w_e = 100, w_e_dot = 0,
       sample_time = 0.01,
       Te = None, Fload = None, w_w = None, s = None, Fx = None \<rparr>"

definition reset :: "vehicle \<Rightarrow> vehicle" where
  "reset self = self\<lparr> x := 0, v := 5, a := 0, w_e := 100, w_e_dot := 0 \<rparr>"

subsection \<open>One step\<close>

text \<open>
  \<open>step\<close> reads the name \<open>sample_time\<close>, not \<open>self.sample_time\<close>: the name is
  resolved in the notebook's global scope. The value of that global variable at the
  time of the call is the first argument, \<open>sample_time_global\<close>; the lookup of
  the name, which fails when the variable was never assigned, is
  \<open>step_with_globals\<close> below.

  The object is mutated in place, statement by statement, so a call that raises
  leaves the assignments made before the raise. The result is the exception raised,
  if any, and the object after the call.
\<close>

definition step :: "real \<Rightarrow> vehicle \<Rightarrow> real \<Rightarrow> real \<Rightarrow> error option \<times> vehicle" where
  "step sample_time_global self throttle alpha =
    (let self = self\<lparr> x := x self + v self * sample_time_global \<rparr>;
         self = self\<lparr> v := v self + a self * sample_time_global \<rparr>;
         self = self\<lparr> w_e := w_e self + w_e_dot self * sample_time_global \<rparr>;
         Te' = throttle * (a_0 self + a_1 self * w_e self + a_2 self * w_e self * w_e self);
         self = self\<lparr> Te := Some Te' \<rparr>;
         Fload' = c_a self * v self * v self + c_r1 self * v self + m self * g self * sin alpha;
         self = self\<lparr> Fload := Some Fload' \<rparr>
     in if J_e self = 0 then (Some ZeroDivisionError, self) else
    (let self = self\<lparr> w_e_dot := (Te' - GR self * (r_e self * Fload')) / J_e self \<rparr>;
         w_w' = GR self * w_e self;
         self = self\<lparr> w_w := Some w_w' \<rparr>
     in if v self = 0 then (Some ZeroDivisionError, self) else
    (let s' = ((w_w' * r_e self) - v self) / v self;
         self = self\<lparr> s := Some s' \<rparr>;
         Fx' = (if \<bar>s'\<bar> < 1 then c self * s' else F_max self);
         self = self\<lparr> Fx := Some Fx' \<rparr>
     in if m self = 0 then (Some ZeroDivisionError, self) else
        (None, self\<lparr> a := (Fx' - Fload') / m self \<rparr>))))"

text \<open>
  A call of \<open>step\<close> in a global scope where the name \<open>sample_time\<close> is bound to a
  value (\<open>Some\<close>) or not bound (\<open>None\<close>). The first statement evaluates
  \<open>self.x + self.v * sample_time\<close> before it assigns: with the name unbound it
  raises \<open>NameError\<close> and the object is untouched.
\<close>

definition step_with_globals ::
    "real option \<Rightarrow> vehicle \<Rightarrow> real \<Rightarrow> real \<Rightarrow> error option \<times> vehicle" where
  "step_with_globals sample_time_binding self throttle alpha =
     (case sample_time_binding of
        None \<Rightarrow> (Some NameError, self)
      | Some sample_time_global \<Rightarrow> step sample_time_global self throttle alpha)"


subsection \<open>Views of the object\<close>

text \<open>The five state variables and the thirteen parameters, as the constructor groups them.\<close>

definition state_of :: "vehicle \<Rightarrow> real \<times> real \<times> real \<times> real \<times> real" where
  "state_of self = (x self, v self, a self, w_e self, w_e_dot self)"

definition parameters_of :: "vehicle \<Rightarrow> real list" where
  "parameters_of self =
     [a_0 self, a_1 self, a_2 self, GR self, r_e self, J_e self, m self, g self,
      c_a self, c_r1 self, c self, F_max self, sample_time self]"

subsection \<open>Sequences of calls\<close>

text \<open>
  The driver loops of the notebook call \<open>step\<close> once per sample. A call is the
  triple of the global \<open>sample_time\<close> at that moment, the throttle and the incline.
  \<open>run\<close> is such a loop: it collects the outcome of every call and ends at the first
  exception, which leaves the loop. \<open>after_calls\<close> is the object after a sequence of
  calls, each of them possibly caught by the caller.
\<close>

fun run :: "vehicle \<Rightarrow> (real \<times> real \<times> real) list \<Rightarrow> (error option \<times> vehicle) list" where
  "run self [] = []"
| "run self ((sample_time_global, throttle, incline) # calls) =
     (case step sample_time_global self throttle incline of
        (None, self') \<Rightarrow> (None, self') # run self' calls
      | (Some e, self') \<Rightarrow> [(Some e, self')])"

fun after_calls :: "vehicle \<Rightarrow> (real \<times> real \<times> real) list \<Rightarrow> vehicle" where
  "after_calls self [] = self"
| "after_calls self ((sample_time_global, throttle, incline) # calls) =
     after_calls (snd (step sample_time_global self throttle incline)) calls"

subsection \<open>The incline profile\<close>

text \<open>
  \<open>alpha\<close> declares \<open>global alpha_a\<close>, assigns it in one of three branches and
  returns it. When no branch is taken the variable keeps the value of an earlier
  call; returning it when it was never assigned raises \<open>NameError\<close>. The first
  argument is the global variable before the call (\<open>None\<close>: not assigned yet); the
  result is the value returned or the exception, and the global variable after the
  call. The divisors are cosines of fixed angles and are positive.
\<close>

definition alpha :: "real option \<Rightarrow> real \<Rightarrow> (error + real) \<times> real option" where
  "alpha alpha_a pos =
    (let alpha_a =
       (if pos \<le> 60 / cos (arctan (3 / 60)) \<and> pos \<ge> 0 then Some (arctan (3 / 60))
        else if pos > 60 / cos (arctan (3 / 60)) \<and>
                pos \<le> 60 / cos (arctan (3 / 60)) + 90 / cos (arctan (9 / 90))
          then Some (arctan (9 / 90))
        else if pos > 60 / cos (arctan (3 / 60)) + 90 / cos (arctan (9 / 90)) then Some 0
        else alpha_a)
     in (case alpha_a of None \<Rightarrow> Inl NameError | Some r \<Rightarrow> Inr r, alpha_a))"

section \<open>Properties of \<open>step\<close>\<close>

subsection \<open>The step, branch by branch\<close>

text \<open>
  The same function with every assignment expressed in the attributes of the object
  before the call: one record per point at which the call can end.
\<close>

lemma step_flat:
  "step st self throttle incline =
    (let x' = x self + v self * st;
         v' = v self + a self * st;
         w_e' = w_e self + w_e_dot self * st;
         Te' = throttle * (a_0 self + a_1 self * w_e' + a_2 self * w_e' * w_e');
         Fload' = c_a self * v' * v' + c_r1 self * v' + m self * g self * sin incline;
         w_e_dot' = (Te' - GR self * (r_e self * Fload')) / J_e self;
         w_w' = GR self * w_e';
         s' = ((w_w' * r_e self) - v') / v';
         Fx' = (if \<bar>s'\<bar> < 1 then c self * s' else F_max self);
         a' = (Fx' - Fload') / m self
     in if J_e self = 0
          then (Some ZeroDivisionError,
                self\<lparr>x := x', v := v', w_e := w_e', Te := Some Te', Fload := Some Fload'\<rparr>)
        else if v' = 0
          then (Some ZeroDivisionError,
                self\<lparr>x := x', v := v', w_e := w_e', w_e_dot := w_e_dot',
                  Te := Some Te', Fload := Some Fload', w_w := Some w_w'\<rparr>)
        else if m self = 0
          then (Some ZeroDivisionError,
                self\<lparr>x := x', v := v', w_e := w_e', w_e_dot := w_e_dot',
                  Te := Some Te', Fload := Some Fload', w_w := Some w_w',
                  s := Some s', Fx := Some Fx'\<rparr>)
        else (None,
                self\<lparr>x := x', v := v', a := a', w_e := w_e', w_e_dot := w_e_dot',
                  Te := Some Te', Fload := Some Fload', w_w := Some w_w',
                  s := Some s', Fx := Some Fx'\<rparr>))"
  by (simp add: step_def Let_def)

lemma step_integrated:
  "x (snd (step st self throttle incline)) = x self + v self * st"
  "v (snd (step st self throttle incline)) = v self + a self * st"
  "w_e (snd (step st self throttle incline)) = w_e self + w_e_dot self * st"
  by (simp_all add: step_flat Let_def)

lemma step_torque_and_load:
  "Te (snd (step st self throttle incline)) =
     Some (throttle * (a_0 self + a_1 self * (w_e self + w_e_dot self * st)
             + a_2 self * (w_e self + w_e_dot self * st) * (w_e self + w_e_dot self * st)))"
  "Fload (snd (step st self throttle incline)) =
     Some (c_a self * (v self + a self * st) * (v self + a self * st)
             + c_r1 self * (v self + a self * st) + m self * g self * sin incline)"
  by (simp_all add: step_flat Let_def)

lemma step_parameters:
  "parameters_of (snd (step st self throttle incline)) = parameters_of self"
  by (simp add: step_flat Let_def parameters_of_def)

lemma step_outcome:
  "fst (step st self throttle incline) =
     (if J_e self = 0 \<or> v self + a self * st = 0 \<or> m self = 0
      then Some ZeroDivisionError else None)"
  by (simp add: step_flat Let_def)

lemma step_engine_accel:
  "J_e self \<noteq> 0 \<Longrightarrow>
   w_e_dot (snd (step st self throttle incline)) =
     (throttle * (a_0 self + a_1 self * (w_e self + w_e_dot self * st)
             + a_2 self * (w_e self + w_e_dot self * st) * (w_e self + w_e_dot self * st))
      - GR self * (r_e self * (c_a self * (v self + a self * st) * (v self + a self * st)
             + c_r1 self * (v self + a self * st) + m self * g self * sin incline)))
     / J_e self"
  by (simp add: step_flat Let_def)

lemma step_slip_and_tire_force:
  "J_e self \<noteq> 0 \<Longrightarrow> v self + a self * st \<noteq> 0 \<Longrightarrow>
   s (snd (step st self throttle incline)) =
     Some ((GR self * (w_e self + w_e_dot self * st) * r_e self - (v self + a self * st))
           / (v self + a self * st)) \<and>
   Fx (snd (step st self throttle incline)) =
     Some (if \<bar>(GR self * (w_e self + w_e_dot self * st) * r_e self - (v self + a self * st))
                / (v self + a self * st)\<bar> < 1
           then c self * ((GR self * (w_e self + w_e_dot self * st) * r_e self
                            - (v self + a self * st)) / (v self + a self * st))
           else F_max self)"
  by (simp add: step_flat Let_def)

lemma step_acceleration:
  "J_e self \<noteq> 0 \<Longrightarrow> v self + a self * st \<noteq> 0 \<Longrightarrow> m self \<noteq> 0 \<Longrightarrow>
   a (snd (step st self throttle incline)) =
     (the (Fx (snd (step st self throttle incline)))
      - the (Fload (snd (step st self throttle incline)))) / m self"
  by (simp add: step_flat Let_def)


subsection \<open>Integration before recomputation\<close>

text \<open>
  C1, as the code has it. Take a call made while the global \<open>sample_time\<close> holds
  the object's own \<open>sample_time\<close>, on an object with non-zero engine inertia and mass
  (10 and 2000 as constructed). The call first integrates with the derivatives the
  previous call left: the new \<open>x\<close> is \<open>x + v * sample_time\<close>, the new \<open>v\<close> is
  \<open>v + a * sample_time\<close>, the new \<open>w_e\<close> is \<open>w_e + w_e_dot * sample_time\<close>, the
  same for any other throttle and incline. Only then, from the integrated values and
  this call's inputs, it recomputes the engine torque \<open>Te\<close>, the load force
  \<open>Fload\<close>, the engine acceleration \<open>w_e_dot\<close> and the wheel speed \<open>w_w\<close> and,
  whenever the integrated velocity is not zero, the slip ratio \<open>s\<close>, the tire force
  \<open>Fx\<close> and the acceleration \<open>a\<close>. The whole call equals a call with a zero
  increment on the object that already holds the three integrated values.
\<close>

theorem step_integrates_then_recomputes:
  assumes "st = sample_time self" and "J_e self \<noteq> 0" and "m self \<noteq> 0"
  shows "let self' = snd (step st self throttle incline);
             engine_torque =
               throttle * (a_0 self + a_1 self * w_e self' + a_2 self * w_e self' * w_e self');
             load_force =
               c_a self * v self' * v self' + c_r1 self * v self' + m self * g self * sin incline;
             slip_ratio = (GR self * w_e self' * r_e self - v self') / v self';
             tire_force = (if \<bar>slip_ratio\<bar> < 1 then c self * slip_ratio else F_max self)
         in x self' = x self + v self * sample_time self \<and>
            v self' = v self + a self * sample_time self \<and>
            w_e self' = w_e self + w_e_dot self * sample_time self \<and>
            x (snd (step st self throttle2 incline2)) = x self' \<and>
            v (snd (step st self throttle2 incline2)) = v self' \<and>
            w_e (snd (step st self throttle2 incline2)) = w_e self' \<and>
            Te self' = Some engine_torque \<and>
            Fload self' = Some load_force \<and>
            w_e_dot self' = (engine_torque - GR self * (r_e self * load_force)) / J_e self \<and>
            w_w self' = Some (GR self * w_e self') \<and>
            (v self' \<noteq> 0 \<longrightarrow>
               s self' = Some slip_ratio \<and>
               Fx self' = Some tire_force \<and>
               a self' = (tire_force - load_force) / m self) \<and>
            step 0 (self\<lparr> x := x self + v self * sample_time self,
                           v := v self + a self * sample_time self,
                           w_e := w_e self + w_e_dot self * sample_time self \<rparr>)
              throttle incline
            = step st self throttle incline"
  using assms by (simp add: step_flat Let_def)

theorem step_integrates_then_recomputes_witness:
  "(0.01::real) = sample_time Vehicle_init \<and> J_e Vehicle_init \<noteq> 0 \<and> m Vehicle_init \<noteq> 0 \<and>
   v (snd (step 0.01 Vehicle_init 0.2 0)) \<noteq> 0 \<and>
   x (snd (step 0.01 Vehicle_init 0.2 0)) = 0.05 \<and>
   v (snd (step 0.01 Vehicle_init 0.2 0)) = 5 \<and>
   w_e (snd (step 0.01 Vehicle_init 0.2 0)) = 100 \<and>
   Te (snd (step 0.01 Vehicle_init 0.2 0)) = Some 81.6 \<and>
   Fload (snd (step 0.01 Vehicle_init 0.2 0)) = Some 34.05 \<and>
   w_e_dot (snd (step 0.01 Vehicle_init 0.2 0)) = 312099 / 40000 \<and>
   w_w (snd (step 0.01 Vehicle_init 0.2 0)) = Some 35 \<and>
   s (snd (step 0.01 Vehicle_init 0.2 0)) = Some 1.1 \<and>
   Fx (snd (step 0.01 Vehicle_init 0.2 0)) = Some 10000 \<and>
   a (snd (step 0.01 Vehicle_init 0.2 0)) = 199319 / 40000"
  using step_integrates_then_recomputes [of "0.01" Vehicle_init "0.2" 0 "0.2" 0]
  by (simp add: Let_def Vehicle_init_def step_integrated)

text \<open>
  The claim as written has every state recompute the slip ratio, the tire force and
  the acceleration. With velocity 2 and acceleration -200 the call integrates (the
  position becomes 0.02, the velocity 0), the slip-ratio division raises, and
  \<open>s\<close>, \<open>Fx\<close> and \<open>a\<close> are left as they were. The claim's increments are those of
  the object's \<open>sample_time\<close>: with the global at 0.05 a fresh object moves by 0.25,
  not by \<open>5 * 0.01\<close>.
\<close>

theorem step_recomputation_counterexample:
  "fst (step 0.01 (Vehicle_init\<lparr>v := 2, a := - 200\<rparr>) 0.2 0) = Some ZeroDivisionError \<and>
   x (snd (step 0.01 (Vehicle_init\<lparr>v := 2, a := - 200\<rparr>) 0.2 0)) = 0.02 \<and>
   v (snd (step 0.01 (Vehicle_init\<lparr>v := 2, a := - 200\<rparr>) 0.2 0)) = 0 \<and>
   s (snd (step 0.01 (Vehicle_init\<lparr>v := 2, a := - 200\<rparr>) 0.2 0)) = None \<and>
   Fx (snd (step 0.01 (Vehicle_init\<lparr>v := 2, a := - 200\<rparr>) 0.2 0)) = None \<and>
   a (snd (step 0.01 (Vehicle_init\<lparr>v := 2, a := - 200\<rparr>) 0.2 0)) = - 200 \<and>
   x (snd (step 0.05 Vehicle_init 0.2 0)) = 0.25 \<and>
   x Vehicle_init + v Vehicle_init * sample_time Vehicle_init = 0.05"
  by (simp add: step_flat Let_def Vehicle_init_def)

subsection \<open>Tire force\<close>

text \<open>
  C2, as the code has it. Whenever the velocity just integrated,
  \<open>v + a * sample_time\<close>, is not zero (and the engine inertia is not zero, as
  constructed), the call stores the slip ratio
  \<open>(GR * w_e * r_e - v) / v\<close> of the just-integrated engine speed and velocity, and
  the tire force is \<open>c\<close> times the slip ratio when its absolute value is below 1
  and exactly \<open>F_max\<close>, without a sign, otherwise.
\<close>

theorem step_tire_force:
  assumes "J_e self \<noteq> 0" and "v self + a self * st \<noteq> 0"
  shows "let self' = snd (step st self throttle incline);
             slip_ratio = (GR self * w_e self' * r_e self - v self') / v self'
         in v self' = v self + a self * st \<and>
            w_e self' = w_e self + w_e_dot self * st \<and>
            s self' = Some slip_ratio \<and>
            Fx self' = Some (if \<bar>slip_ratio\<bar> < 1 then c self * slip_ratio else F_max self)"
  using assms step_slip_and_tire_force [of self st throttle incline]
  by (simp add: Let_def step_integrated)

text \<open>
  Three instances: a slip ratio of 0.05 (linear branch), of 1.1 (saturated) and of
  -3.1 (saturated, and the force is still \<open>+ F_max\<close>).
\<close>

theorem step_tire_force_witness:
  "J_e (Vehicle_init\<lparr>w_e := 50\<rparr>) \<noteq> 0 \<and>
   v (Vehicle_init\<lparr>w_e := 50\<rparr>) + a (Vehicle_init\<lparr>w_e := 50\<rparr>) * 0.01 \<noteq> 0 \<and>
   s (snd (step 0.01 (Vehicle_init\<lparr>w_e := 50\<rparr>) 0.2 0)) = Some 0.05 \<and>
   Fx (snd (step 0.01 (Vehicle_init\<lparr>w_e := 50\<rparr>) 0.2 0)) = Some 500 \<and>
   s (snd (step 0.01 Vehicle_init 0.2 0)) = Some 1.1 \<and>
   Fx (snd (step 0.01 Vehicle_init 0.2 0)) = Some 10000 \<and>
   s (snd (step 0.01 (Vehicle_init\<lparr>w_e := - 100\<rparr>) 0.2 0)) = Some (- 3.1) \<and>
   Fx (snd (step 0.01 (Vehicle_init\<lparr>w_e := - 100\<rparr>) 0.2 0)) = Some 10000"
  using step_tire_force [of "Vehicle_init\<lparr>w_e := 50\<rparr>" "0.01" "0.2" 0]
    step_tire_force [of Vehicle_init "0.01" "0.2" 0]
    step_tire_force [of "Vehicle_init\<lparr>w_e := - 100\<rparr>" "0.01" "0.2" 0]
  by (simp add: Let_def Vehicle_init_def)

text \<open>
  The claim as written asks for a non-zero velocity before the call. With velocity 1
  and acceleration -100 the velocity is not zero, the integrated velocity is, the
  division raises and no tire force is stored.
\<close>

theorem step_tire_force_counterexample:
  "v (Vehicle_init\<lparr>v := 1, a := - 100\<rparr>) \<noteq> 0 \<and>
   fst (step 0.01 (Vehicle_init\<lparr>v := 1, a := - 100\<rparr>) 0.2 0) = Some ZeroDivisionError \<and>
   s (snd (step 0.01 (Vehicle_init\<lparr>v := 1, a := - 100\<rparr>) 0.2 0)) = None \<and>
   Fx (snd (step 0.01 (Vehicle_init\<lparr>v := 1, a := - 100\<rparr>) 0.2 0)) = None"
  by (simp add: step_flat Let_def Vehicle_init_def)

subsection \<open>Engine acceleration and acceleration\<close>

text \<open>
  C3, as the code has it. With a non-zero engine inertia (10 as constructed), after
  every call the engine torque is
  \<open>throttle * (a_0 + a_1 * w_e + a_2 * w_e\<^sup>2)\<close> at the just-integrated engine
  speed, the load force is \<open>c_a * v\<^sup>2 + c_r1 * v + m * g * sin incline\<close> at the
  just-integrated velocity, and \<open>w_e_dot\<close> is
  \<open>(Te - GR * r_e * Fload) / J_e\<close>. When moreover the just-integrated velocity and
  the mass are not zero, a tire force is stored and the new \<open>a\<close> is
  \<open>(Fx - Fload) / m\<close>.
\<close>

theorem step_engine_accel_and_acceleration:
  assumes "J_e self \<noteq> 0"
  shows "let self' = snd (step st self throttle incline);
             engine_torque = throttle * (a_0 self + a_1 self * w_e self' + a_2 self * (w_e self')\<^sup>2);
             load_force = c_a self * (v self')\<^sup>2 + c_r1 self * v self'
                            + m self * g self * sin incline
         in Te self' = Some engine_torque \<and>
            Fload self' = Some load_force \<and>
            w_e_dot self' = (engine_torque - GR self * r_e self * load_force) / J_e self \<and>
            (v self + a self * st \<noteq> 0 \<and> m self \<noteq> 0 \<longrightarrow>
               (\<exists>tire_force. Fx self' = Some tire_force \<and>
                  a self' = (tire_force - load_force) / m self))"
  using assms step_engine_accel [of self st throttle incline]
    step_slip_and_tire_force [of self st throttle incline]
    step_acceleration [of self st throttle incline]
  by (simp add: Let_def step_integrated step_torque_and_load power2_eq_square mult.assoc)

theorem step_engine_accel_and_acceleration_witness:
  "J_e Vehicle_init \<noteq> 0 \<and>
   (v Vehicle_init + a Vehicle_init * 0.01 \<noteq> 0 \<and> m Vehicle_init \<noteq> 0) \<and>
   Te (snd (step 0.01 Vehicle_init 0.2 0)) = Some 81.6 \<and>
   Fload (snd (step 0.01 Vehicle_init 0.2 0)) = Some 34.05 \<and>
   w_e_dot (snd (step 0.01 Vehicle_init 0.2 0)) = 312099 / 40000 \<and>
   (\<exists>tire_force. Fx (snd (step 0.01 Vehicle_init 0.2 0)) = Some tire_force \<and>
      a (snd (step 0.01 Vehicle_init 0.2 0)) = (tire_force - 34.05) / 2000)"
  using step_engine_accel_and_acceleration [of Vehicle_init "0.01" "0.2" 0]
  by (simp add: Let_def Vehicle_init_def step_integrated power2_eq_square)

text \<open>
  The claim as written covers every state. From a state with velocity 0 the
  slip-ratio division raises: no tire force is stored and \<open>a\<close> keeps its old value.
\<close>

theorem step_acceleration_counterexample:
  "fst (step 0.01 (Vehicle_init\<lparr>v := 0\<rparr>) 0.2 0) = Some ZeroDivisionError \<and>
   Fx (snd (step 0.01 (Vehicle_init\<lparr>v := 0\<rparr>) 0.2 0)) = None \<and>
   a (snd (step 0.01 (Vehicle_init\<lparr>v := 0\<rparr>) 0.2 0)) = a (Vehicle_init\<lparr>v := 0\<rparr>)"
  by (simp add: step_flat Let_def Vehicle_init_def)


subsection \<open>The time increment\<close>

text \<open>
  C4. The claim is that the increment of a step is the object's own \<open>sample_time\<close>
  (0.01) whatever the value of an outer variable of that name. The code reads the
  outer variable. With the global \<open>sample_time\<close> at 0.02 a fresh object moves by
  \<open>5 * 0.02 = 0.1\<close> in its first call, not by \<open>5 * 0.01 = 0.05\<close>, and in its
  second call velocity and engine speed grow by their derivatives times 0.02.
\<close>

theorem step_reads_global_sample_time:
  "sample_time Vehicle_init = 0.01 \<and>
   x (snd (step 0.02 Vehicle_init 0.2 0)) = 0.1 \<and>
   x Vehicle_init + v Vehicle_init * sample_time Vehicle_init = 0.05 \<and>
   a (snd (step 0.02 Vehicle_init 0.2 0)) = 199319 / 40000 \<and>
   v (after_calls Vehicle_init [(0.02, 0.2, 0), (0.02, 0.2, 0)]) = 5 + 199319 / 40000 * 0.02"
  by (simp add: step_flat Let_def Vehicle_init_def)

subsection \<open>Reset\<close>

text \<open>
  C5. For every object, \<open>reset\<close> sets position 0, velocity 5, acceleration 0, engine
  speed 100 and engine acceleration 0, leaves each of the thirteen parameters (and the
  attributes stored by earlier steps) as it was, and so gives back the five state
  values of a freshly constructed object.
\<close>

theorem reset_restores_initial_state:
  "x (reset self) = 0 \<and> v (reset self) = 5 \<and> a (reset self) = 0 \<and>
   w_e (reset self) = 100 \<and> w_e_dot (reset self) = 0 \<and>
   a_0 (reset self) = a_0 self \<and> a_1 (reset self) = a_1 self \<and>
   a_2 (reset self) = a_2 self \<and> GR (reset self) = GR self \<and>
   r_e (reset self) = r_e self \<and> J_e (reset self) = J_e self \<and>
   m (reset self) = m self \<and> g (reset self) = g self \<and>
   c_a (reset self) = c_a self \<and> c_r1 (reset self) = c_r1 self \<and>
   c (reset self) = c self \<and> F_max (reset self) = F_max self \<and>
   sample_time (reset self) = sample_time self \<and>
   Te (reset self) = Te self \<and> Fload (reset self) = Fload self \<and>
   w_w (reset self) = w_w self \<and> s (reset self) = s self \<and> Fx (reset self) = Fx self \<and>
   state_of (reset self) = state_of Vehicle_init \<and>
   state_of (reset self) = (0, 5, 0, 100, 0)"
  by (simp add: reset_def state_of_def Vehicle_init_def)

subsection \<open>When a step raises\<close>

text \<open>
  C6, as the code has it. For every throttle and incline, on an object whose engine
  inertia and mass are not zero (10 and 2000 as constructed) and in a scope where the
  name \<open>sample_time\<close> is bound: whenever the velocity the call has just integrated,
  \<open>v + a * sample_time\<close>, is not zero, the call raises nothing and assigns all five
  state variables (and the five attributes it stores) their new values. So such a
  call can raise only in the slip-ratio division, whose divisor is that velocity.
\<close>

theorem step_returns_when_integrated_velocity_nonzero:
  assumes "J_e self \<noteq> 0" and "m self \<noteq> 0"
  shows "(v self + a self * st \<noteq> 0 \<longrightarrow>
            step_with_globals (Some st) self throttle incline =
              (let x' = x self + v self * st;
                   v' = v self + a self * st;
                   w_e' = w_e self + w_e_dot self * st;
                   Te' = throttle * (a_0 self + a_1 self * w_e' + a_2 self * w_e' * w_e');
                   Fload' = c_a self * v' * v' + c_r1 self * v' + m self * g self * sin incline;
                   w_e_dot' = (Te' - GR self * (r_e self * Fload')) / J_e self;
                   w_w' = GR self * w_e';
                   s' = ((w_w' * r_e self) - v') / v';
                   Fx' = (if \<bar>s'\<bar> < 1 then c self * s' else F_max self);
                   a' = (Fx' - Fload') / m self
               in (None,
                   self\<lparr>x := x', v := v', a := a', w_e := w_e', w_e_dot := w_e_dot',
                     Te := Some Te', Fload := Some Fload', w_w := Some w_w',
                     s := Some s', Fx := Some Fx'\<rparr>))) \<and>
         (fst (step_with_globals (Some st) self throttle incline) \<noteq> None \<longrightarrow>
            v self + a self * st = 0)"
  using assms by (simp add: step_with_globals_def step_flat Let_def)

theorem step_returns_when_integrated_velocity_nonzero_witness:
  "J_e Vehicle_init \<noteq> 0 \<and> m Vehicle_init \<noteq> 0 \<and>
   v Vehicle_init + a Vehicle_init * 0.01 \<noteq> 0 \<and>
   step_with_globals (Some 0.01) Vehicle_init 0.2 0 =
     (None, Vehicle_init\<lparr> x := 0.05, a := 199319 / 40000, w_e_dot := 312099 / 40000,
                            Te := Some 81.6, Fload := Some 34.05, w_w := Some 35,
                            s := Some 1.1, Fx := Some 10000 \<rparr>) \<and>
   J_e (Vehicle_init\<lparr>a := - 500\<rparr>) \<noteq> 0 \<and> m (Vehicle_init\<lparr>a := - 500\<rparr>) \<noteq> 0 \<and>
   fst (step_with_globals (Some 0.01) (Vehicle_init\<lparr>a := - 500\<rparr>) 0.2 0) \<noteq> None \<and>
   v (Vehicle_init\<lparr>a := - 500\<rparr>) + a (Vehicle_init\<lparr>a := - 500\<rparr>) * 0.01 = 0"
proof -
  have raised: "fst (step_with_globals (Some 0.01) (Vehicle_init\<lparr>a := - 500\<rparr>) 0.2 0) \<noteq> None"
    by (simp add: step_with_globals_def step_outcome Vehicle_init_def)
  show ?thesis
    using step_returns_when_integrated_velocity_nonzero [of Vehicle_init "0.01" "0.2" 0]
      step_returns_when_integrated_velocity_nonzero [of "Vehicle_init\<lparr>a := - 500\<rparr>" "0.01" "0.2" 0]
      raised
    by (simp add: Let_def Vehicle_init_def)
qed

text \<open>
  The claim as written asks for a non-zero velocity before the call and nothing
  else. With the constructor's velocity 5 and acceleration -500 that velocity is not
  zero, and the call raises in the slip-ratio division: \<open>a\<close> is not updated. With
  the name \<open>sample_time\<close> unbound the call on a fresh object, velocity 5, raises
  \<open>NameError\<close>.
\<close>

theorem step_raises_counterexample:
  "v (Vehicle_init\<lparr>a := - 500\<rparr>) \<noteq> 0 \<and>
   fst (step 0.01 (Vehicle_init\<lparr>a := - 500\<rparr>) 0.2 0) = Some ZeroDivisionError \<and>
   a (snd (step 0.01 (Vehicle_init\<lparr>a := - 500\<rparr>) 0.2 0)) = - 500 \<and>
   v Vehicle_init \<noteq> 0 \<and>
   step_with_globals None Vehicle_init 0.2 0 = (Some NameError, Vehicle_init)"
  by (simp add: step_with_globals_def step_flat Let_def Vehicle_init_def)

subsection \<open>What a step leaves alone\<close>

text \<open>
  C7, as the code has it. A call of \<open>step\<close>, whatever its inputs and whether or not
  it raises, leaves the thirteen parameters as they were: the object after the call is
  the object before it with new values for at most the five state variables and the
  five attributes \<open>Te\<close>, \<open>Fload\<close>, \<open>w_w\<close>, \<open>s\<close>, \<open>Fx\<close> that \<open>step\<close> stores.
\<close>

theorem step_frame:
  "a_0 (snd (step st self throttle incline)) = a_0 self \<and>
   a_1 (snd (step st self throttle incline)) = a_1 self \<and>
   a_2 (snd (step st self throttle incline)) = a_2 self \<and>
   GR (snd (step st self throttle incline)) = GR self \<and>
   r_e (snd (step st self throttle incline)) = r_e self \<and>
   J_e (snd (step st self throttle incline)) = J_e self \<and>
   m (snd (step st self throttle incline)) = m self \<and>
   g (snd (step st self throttle incline)) = g self \<and>
   c_a (snd (step st self throttle incline)) = c_a self \<and>
   c_r1 (snd (step st self throttle incline)) = c_r1 self \<and>
   c (snd (step st self throttle incline)) = c self \<and>
   F_max (snd (step st self throttle incline)) = F_max self \<and>
   sample_time (snd (step st self throttle incline)) = sample_time self \<and>
   snd (step st self throttle incline) =
     self\<lparr> x := x (snd (step st self throttle incline)),
           v := v (snd (step st self throttle incline)),
           a := a (snd (step st self throttle incline)),
           w_e := w_e (snd (step st self throttle incline)),
           w_e_dot := w_e_dot (snd (step st self throttle incline)),
           Te := Te (snd (step st self throttle incline)),
           Fload := Fload (snd (step st self throttle incline)),
           w_w := w_w (snd (step st self throttle incline)),
           s := s (snd (step st self throttle incline)),
           Fx := Fx (snd (step st self throttle incline)) \<rparr>"
  by (simp add: step_flat Let_def)

text \<open>
  The claim as written allows only the five state variables to change. The first call
  on a fresh object creates the attributes \<open>Te\<close> and \<open>Fx\<close>, among others.
\<close>

theorem step_frame_counterexample:
  "Te Vehicle_init = None \<and> Te (snd (step 0.01 Vehicle_init 0.2 0)) = Some 81.6 \<and>
   Fx Vehicle_init = None \<and> Fx (snd (step 0.01 Vehicle_init 0.2 0)) = Some 10000"
  by (simp add: step_flat Let_def Vehicle_init_def)


subsection \<open>Inputs reach the integrated variables with a delay\<close>

text \<open>
  C9. From the same object and with the same global \<open>sample_time\<close>, two calls with
  different throttle and incline leave the same position, velocity and engine speed:
  the inputs of a call reach only what the call recomputes. After a second call the
  position is still the same, whatever the inputs of both calls were.
\<close>

theorem step_inputs_delayed:
  "x (snd (step st self throttle1 incline1)) = x (snd (step st self throttle2 incline2)) \<and>
   v (snd (step st self throttle1 incline1)) = v (snd (step st self throttle2 incline2)) \<and>
   w_e (snd (step st self throttle1 incline1)) = w_e (snd (step st self throttle2 incline2)) \<and>
   x (snd (step st' (snd (step st self throttle1 incline1)) throttle1' incline1')) =
   x (snd (step st' (snd (step st self throttle2 incline2)) throttle2' incline2'))"
  by (simp add: step_integrated)

section \<open>Reset and a fresh object\<close>

lemma after_calls_parameters:
  "parameters_of (after_calls self calls) = parameters_of self"
proof (induction calls arbitrary: self)
  case Nil
  show ?case by simp
next
  case (Cons call calls)
  obtain st throttle incline where call: "call = (st, throttle, incline)"
    by (cases call)
  show ?case
    unfolding call after_calls.simps by (simp only: Cons.IH step_parameters)
qed

lemma reset_is_fresh_but_for_stored:
  assumes "parameters_of self = parameters_of Vehicle_init"
  shows "reset self =
           Vehicle_init\<lparr> Te := Te self, Fload := Fload self, w_w := w_w self,
                          s := s self, Fx := Fx self \<rparr>"
  using assms
  by (intro vehicle.equality) (simp_all add: reset_def parameters_of_def Vehicle_init_def)

lemma first_step_overwrites_stored:
  "step st (Vehicle_init\<lparr> Te := t1, Fload := t2, w_w := t3, s := t4, Fx := t5 \<rparr>)
       throttle incline
   = step st Vehicle_init throttle incline"
  by (simp add: step_flat Let_def Vehicle_init_def)

lemma run_overwrites_stored:
  "run (Vehicle_init\<lparr> Te := t1, Fload := t2, w_w := t3, s := t4, Fx := t5 \<rparr>) calls
   = run Vehicle_init calls"
proof (cases calls)
  case Nil
  then show ?thesis by simp
next
  case (Cons call rest)
  obtain st throttle incline where call: "call = (st, throttle, incline)"
    by (cases call)
  show ?thesis
    unfolding Cons call run.simps first_step_overwrites_stored ..
qed

text \<open>
  C10. Take a freshly constructed object through any sequence of calls of \<open>step\<close>,
  then \<open>reset\<close> it. From there every sequence of calls gives, call by call, the same
  outcome and the same object as on a freshly constructed one, and the five state
  values before the first call are the same too. The attributes that earlier steps
  stored and \<open>reset\<close> did not clear are overwritten before they are read.
\<close>

theorem reset_then_run_is_fresh_run:
  "run (reset (after_calls Vehicle_init prior)) calls = run Vehicle_init calls \<and>
   state_of (reset (after_calls Vehicle_init prior)) = state_of Vehicle_init"
proof
  have "parameters_of (after_calls Vehicle_init prior) = parameters_of Vehicle_init"
    by (rule after_calls_parameters)
  then show "run (reset (after_calls Vehicle_init prior)) calls = run Vehicle_init calls"
    by (simp only: reset_is_fresh_but_for_stored run_overwrites_stored)
  show "state_of (reset (after_calls Vehicle_init prior)) = state_of Vehicle_init"
    by (simp add: state_of_def reset_def Vehicle_init_def)
qed

section \<open>The incline profile\<close>

text \<open>The two breakpoints lie between 60 and 63 and between 150 and 162.\<close>

lemma first_ramp_end_bounds:
  "60 \<le> 60 / cos (arctan (3 / 60 :: real))" "60 / cos (arctan (3 / 60 :: real)) \<le> 63"
proof -
  have eq: "60 / cos (arctan (3 / 60 :: real)) = 60 * sqrt (1 + (3 / 60)\<^sup>2)"
    by (simp add: cos_arctan)
  have up: "sqrt (1 + (3 / 60 :: real)\<^sup>2) \<le> 21 / 20"
    by (rule real_le_lsqrt) (simp_all add: power2_eq_square)
  have lo: "1 \<le> sqrt (1 + (3 / 60 :: real)\<^sup>2)"
    by simp
  show "60 \<le> 60 / cos (arctan (3 / 60 :: real))" using eq lo by linarith
  show "60 / cos (arctan (3 / 60 :: real)) \<le> 63" using eq up by linarith
qed

lemma second_ramp_length_bounds:
  "90 \<le> 90 / cos (arctan (9 / 90 :: real))" "90 / cos (arctan (9 / 90 :: real)) \<le> 99"
proof -
  have eq: "90 / cos (arctan (9 / 90 :: real)) = 90 * sqrt (1 + (9 / 90)\<^sup>2)"
    by (simp add: cos_arctan)
  have up: "sqrt (1 + (9 / 90 :: real)\<^sup>2) \<le> 11 / 10"
    by (rule real_le_lsqrt) (simp_all add: power2_eq_square)
  have lo: "1 \<le> sqrt (1 + (9 / 90 :: real)\<^sup>2)"
    by simp
  show "90 \<le> 90 / cos (arctan (9 / 90 :: real))" using eq lo by linarith
  show "90 / cos (arctan (9 / 90 :: real)) \<le> 99" using eq up by linarith
qed

text \<open>
  Below 0 no branch is taken: the call returns what an earlier call left in
  \<open>alpha_a\<close>, or raises when there was none.
\<close>

lemma alpha_negative_position:
  "fst (alpha None (- 1)) = Inl NameError" "fst (alpha (Some r) (- 1)) = Inr r"
  using first_ramp_end_bounds second_ramp_length_bounds
  by (simp_all add: alpha_def Let_def)

text \<open>
  C8. For every position \<open>pos \<ge> 0\<close>, \<open>alpha\<close> returns \<open>arctan (3 / 60)\<close> up to
  \<open>60 / cos (arctan (3 / 60))\<close>, \<open>arctan (9 / 90)\<close> from there up to
  \<open>60 / cos (arctan (3 / 60)) + 90 / cos (arctan (9 / 90))\<close>, and 0 beyond, whatever
  the global variable \<open>alpha_a\<close> held from earlier calls.
\<close>

theorem alpha_piecewise:
  assumes "0 \<le> pos"
  shows "fst (alpha alpha_a pos) =
           Inr (if pos \<le> 60 / cos (arctan (3 / 60)) then arctan (3 / 60)
                else if pos \<le> 60 / cos (arctan (3 / 60)) + 90 / cos (arctan (9 / 90))
                  then arctan (9 / 90)
                else 0)"
  using assms by (simp add: alpha_def Let_def)

text \<open>One position on each segment: 10, 100 and 200.\<close>

theorem alpha_piecewise_witness:
  "(0::real) \<le> 10 \<and> fst (alpha None 10) = Inr (arctan (3 / 60)) \<and>
   (0::real) \<le> 100 \<and> fst (alpha None 100) = Inr (arctan (9 / 90)) \<and>
   (0::real) \<le> 200 \<and> fst (alpha (Some 7) 200) = Inr 0"
proof -
  have b1: "(10::real) \<le> 60 / cos (arctan (3 / 60))"
    and b2: "\<not> (100::real) \<le> 60 / cos (arctan (3 / 60))"
    and b3: "(100::real) \<le> 60 / cos (arctan (3 / 60)) + 90 / cos (arctan (9 / 90))"
    and b4: "\<not> (200::real) \<le> 60 / cos (arctan (3 / 60))"
    and b5: "\<not> (200::real) \<le> 60 / cos (arctan (3 / 60)) + 90 / cos (arctan (9 / 90))"
    using first_ramp_end_bounds second_ramp_length_bounds by linarith+
  show ?thesis
    using alpha_piecewise [of 10 None] alpha_piecewise [of 100 None]
      alpha_piecewise [of 200 "Some 7"] b1 b2 b3 b4 b5
    by (simp del: arctan_eq_zero_iff)
qed

end
